theory Spec2Isabelle
  imports Main "HOL-Library.Char_ord" "HOL-Library.List_Lexorder"
begin

section \<open>Python values\<close>

text \<open>
  The two modules (\<^verbatim>\<open>bigip_profile_client_ssl.py\<close> and \<^verbatim>\<open>bigip_sys_global.py\<close>) keep
  their parameters in a dict \<^verbatim>\<open>_values\<close> from field names to values. A value is a scalar
  (None, a bool, an int, a str) or a list of dicts with str values: the certificate
  bundles of \<^verbatim>\<open>cert_key_chain\<close> and the entries of \<^verbatim>\<open>__warnings\<close>. A dict is an
  association list (keys in insertion order, each key once).
\<close>

datatype pyval = PNone | PBool bool | PInt int | PStr string

type_synonym strdict = "(string \<times> string) list"

datatype param = Scalar pyval | Bundles "strdict list"

type_synonym pydict = "(string \<times> param) list"

datatype error =
    F5ModuleError string
  | KeyError string
  | TypeError
  | AttributeError
  | iControlUnexpectedHTTPError string

text \<open>Python's \<^verbatim>\<open>==\<close>: a bool is the int 0 or 1; values of different kinds differ.\<close>

fun py_num :: "pyval \<Rightarrow> int option" where
  "py_num (PBool b) = Some (if b then 1 else 0)"
| "py_num (PInt i) = Some i"
| "py_num _ = None"

fun py_eq :: "pyval \<Rightarrow> pyval \<Rightarrow> bool" where
  "py_eq PNone PNone = True"
| "py_eq (PStr s) (PStr t) = (s = t)"
| "py_eq PNone _ = False"
| "py_eq _ PNone = False"
| "py_eq (PStr s) _ = False"
| "py_eq _ (PStr t) = False"
| "py_eq a b = (py_num a = py_num b)"

text \<open>Two dicts are equal when they hold the same items; two lists, item by item.\<close>

fun param_eq :: "param \<Rightarrow> param \<Rightarrow> bool" where
  "param_eq (Scalar a) (Scalar b) = py_eq a b"
| "param_eq (Bundles xs) (Bundles ys) = list_all2 (\<lambda>x y. set x = set y) xs ys"
| "param_eq _ _ = False"

text \<open>\<^verbatim>\<open>x in xs\<close> on a list compares with \<^verbatim>\<open>==\<close>.\<close>

definition py_in :: "param \<Rightarrow> pyval list \<Rightarrow> bool" where
  "py_in v xs = list_ex (\<lambda>x. param_eq v (Scalar x)) xs"

text \<open>\<^verbatim>\<open>str(x)\<close>: decimal digits for an int, the names of the constants otherwise.\<close>

definition digit_char :: "nat \<Rightarrow> char" where
  "digit_char d = char_of (48 + d)"

function str_nat :: "nat \<Rightarrow> string" where
  "str_nat n = (if n < 10 then [digit_char n] else str_nat (n div 10) @ [digit_char (n mod 10)])"
  by pat_completeness auto
termination
  by (relation "measure id") auto

fun py_str :: "pyval \<Rightarrow> string" where
  "py_str PNone = ''None''"
| "py_str (PBool b) = (if b then ''True'' else ''False'')"
| "py_str (PInt i) = (if i < 0 then CHR ''-'' # str_nat (nat (- i)) else str_nat (nat i))"
| "py_str (PStr s) = s"

text \<open>
  \<^verbatim>\<open>str\<close> of a list of dicts is Python's \<^verbatim>\<open>repr\<close>: items in insertion order, each
  string between single quotes (as \<^verbatim>\<open>repr\<close> writes a str free of quotes and backslashes).
\<close>

fun join :: "string \<Rightarrow> string list \<Rightarrow> string" where
  "join sep [] = []"
| "join sep [x] = x"
| "join sep (x # xs) = x @ sep @ join sep xs"

definition repr_str :: "string \<Rightarrow> string" where
  "repr_str s = [CHR 0x27] @ s @ [CHR 0x27]"

definition repr_dict :: "strdict \<Rightarrow> string" where
  "repr_dict b = ''{'' @ join '', '' (map (\<lambda>(k, v). repr_str k @ '': '' @ repr_str v) b) @ ''}''"

fun param_str :: "param \<Rightarrow> string" where
  "param_str (Scalar v) = py_str v"
| "param_str (Bundles bs) = ''['' @ join '', '' (map repr_dict bs) @ '']''"

subsection \<open>Dicts\<close>

text \<open>\<^verbatim>\<open>d[k] = v\<close>: replaces the value of a key the dict has, adds the key at the end otherwise.\<close>

fun dict_set :: "'k \<Rightarrow> 'v \<Rightarrow> ('k \<times> 'v) list \<Rightarrow> ('k \<times> 'v) list" where
  "dict_set k v [] = [(k, v)]"
| "dict_set k v ((k', v') # d) = (if k = k' then (k, v) # d else (k', v') # dict_set k v d)"

text \<open>\<^verbatim>\<open>d.update(e)\<close>.\<close>

definition dict_update :: "('k \<times> 'v) list \<Rightarrow> ('k \<times> 'v) list \<Rightarrow> ('k \<times> 'v) list" where
  "dict_update e d = fold (\<lambda>(k, v). dict_set k v) e d"

text \<open>
  \<^verbatim>\<open>_values\<close> is a \<^verbatim>\<open>defaultdict(lambda: None)\<close>: a key it does not have reads as None.
\<close>

definition values_get :: "pydict \<Rightarrow> string \<Rightarrow> param" where
  "values_get vals k = (case map_of vals k of None \<Rightarrow> Scalar PNone | Some v \<Rightarrow> v)"

subsection \<open>Strings and paths\<close>

definition startswith :: "string \<Rightarrow> string \<Rightarrow> bool" where
  "startswith s p = (take (length p) s = p)"

definition endswith :: "string \<Rightarrow> string \<Rightarrow> bool" where
  "endswith s p = (length p \<le> length s \<and> drop (length s - length p) s = p)"

text \<open>\<^verbatim>\<open>os.path.basename\<close>: what follows the last slash.\<close>

definition basename :: "string \<Rightarrow> string" where
  "basename p = rev (takeWhile (\<lambda>c. c \<noteq> CHR ''/'') (rev p))"

text \<open>
  The first component of \<^verbatim>\<open>os.path.splitext\<close> on a name without a slash: the name up to
  its last dot, unless only dots stand before that dot (or there is no dot).
\<close>

definition splitext_root :: "string \<Rightarrow> string" where
  "splitext_root n =
     (let ext = takeWhile (\<lambda>c. c \<noteq> CHR ''.'') (rev n);
          root = take (length n - length ext - 1) n
      in if length ext < length n \<and> list_ex (\<lambda>c. c \<noteq> CHR ''.'') root then root else n)"


section \<open>The base class of the parameter containers\<close>

text \<open>
  Both modules derive \<^verbatim>\<open>Parameters\<close> from \<^verbatim>\<open>AnsibleF5Parameters\<close> of
  \<^verbatim>\<open>ansible.module_utils.f5_utils\<close>, which is not among the sources. What the modules use
  of it is modelled here.
\<close>

text \<open>
  Modelled from the spec: \<^verbatim>\<open>AnsibleF5Parameters._filter_params\<close>, missing from the sources.
  The fields sent to the device have a value that is possibly absent and then filtered
  (section 3): the entries whose value is None are dropped.
\<close>

definition filter_params :: "pydict \<Rightarrow> pydict" where
  "filter_params params = filter (\<lambda>(k, v). v \<noteq> Scalar PNone) params"

text \<open>
  Modelled from the spec: the \<^verbatim>\<open>partition\<close> property of \<^verbatim>\<open>AnsibleF5Parameters\<close>, missing
  from the sources: the configured partition (section 4.2), \<^verbatim>\<open>Common\<close> by default as the
  module's documentation says.
\<close>

definition partition_of :: "pydict \<Rightarrow> string" where
  "partition_of vals = (case values_get vals ''partition'' of Scalar (PStr s) \<Rightarrow> s | _ \<Rightarrow> ''Common'')"

text \<open>
  \<^verbatim>\<open>Parameters.update\<close>: each key is translated through \<^verbatim>\<open>api_map\<close>, and each of the three
  branches stores the value under the translated key (no property of these classes has a
  setter of its own).
\<close>

definition map_key :: "(string \<times> string) list \<Rightarrow> string \<Rightarrow> string" where
  "map_key api_map k = (case map_of api_map k of Some k' \<Rightarrow> k' | None \<Rightarrow> k)"

definition Parameters_update :: "(string \<times> string) list \<Rightarrow> pydict \<Rightarrow> pydict \<Rightarrow> pydict" where
  "Parameters_update api_map params vals = fold (\<lambda>(k, v). dict_set (map_key api_map k) v) params vals"

text \<open>\<^verbatim>\<open>Parameters.__init__\<close>: an empty warnings list, then the parameters given.\<close>

definition Parameters_init :: "(string \<times> string) list \<Rightarrow> pydict \<Rightarrow> pydict" where
  "Parameters_init api_map params = Parameters_update api_map params [(''__warnings'', Bundles [])]"

text \<open>
  \<^verbatim>\<open>Parameters.api_params\<close>, over the attribute lookup \<open>ga\<close> of the object's class: the
  first lookup that raises ends the loop.
\<close>

fun api_params_loop ::
  "(string \<times> string) list \<Rightarrow> (string \<Rightarrow> error + param) \<Rightarrow> string list \<Rightarrow> pydict \<Rightarrow> error + pydict" where
  "api_params_loop api_map ga [] result = Inr result"
| "api_params_loop api_map ga (a # as) result =
     (case ga (map_key api_map a) of
        Inl e \<Rightarrow> Inl e
      | Inr v \<Rightarrow> api_params_loop api_map ga as (dict_set a v result))"

definition api_params ::
  "(string \<times> string) list \<Rightarrow> string list \<Rightarrow> (string \<Rightarrow> error + param) \<Rightarrow> error + pydict" where
  "api_params api_map api_attributes ga =
     (case api_params_loop api_map ga api_attributes [] of
        Inl e \<Rightarrow> Inl e
      | Inr result \<Rightarrow> Inr (filter_params result))"

text \<open>
  Modelled from the spec: \<^verbatim>\<open>AnsibleF5Parameters.__getattr__\<close>, missing from the sources: a
  field without a derivation rule reads the stored value, an absent one reads as None
  (sections 3 and 4.1). \<^verbatim>\<open>Changes\<close> and its subclasses define no property, so every
  attribute of theirs is read this way.
\<close>

definition Changes_getattr :: "pydict \<Rightarrow> string \<Rightarrow> error + param" where
  "Changes_getattr vals item = Inr (values_get vals item)"

text \<open>
  \<^verbatim>\<open>Changes.to_return\<close>: the returnables, None dropped. The lookups cannot raise, so the
  \<^verbatim>\<open>except Exception: pass\<close> of the source never fires.
\<close>

definition to_return :: "string list \<Rightarrow> pydict \<Rightarrow> pydict" where
  "to_return returnables vals =
     filter_params (fold (\<lambda>r result. dict_set r (values_get vals r) result) returnables [])"


section \<open>The client SSL profile module\<close>

subsection \<open>Parameters\<close>

definition ssl_api_map :: "(string \<times> string) list" where
  "ssl_api_map = [(''certKeyChain'', ''cert_key_chain''), (''ocspStapling'', ''ocsp_stapling'')]"

definition ssl_api_attributes :: "string list" where
  "ssl_api_attributes = [''ciphers'', ''certKeyChain'', ''ocspStapling'']"

definition ssl_returnables :: "string list" where
  "ssl_returnables = [''ciphers'', ''ocsp_stapling'']"

definition ssl_updatables :: "string list" where
  "ssl_updatables = [''ciphers'', ''cert_key_chain'', ''ocsp_stapling'']"

subsection \<open>ModuleParameters: the desired state\<close>

text \<open>
  \<^verbatim>\<open>_fqdn_name\<close> on a str, with the partition as a parameter; \<^verbatim>\<open>fqdn_name\<close> is the method on
  any value: None is returned as it is, and a value that is not a str has no
  \<^verbatim>\<open>startswith\<close>.
\<close>

definition fqdn_str :: "string \<Rightarrow> string \<Rightarrow> string" where
  "fqdn_str part v = (if \<not> startswith v ''/'' then ''/'' @ part @ ''/'' @ v else v)"

definition fqdn_name :: "string \<Rightarrow> param \<Rightarrow> error + param" where
  "fqdn_name part v =
     (case v of
        Scalar PNone \<Rightarrow> Inr (Scalar PNone)
      | Scalar (PStr s) \<Rightarrow> Inr (Scalar (PStr (fqdn_str part s)))
      | _ \<Rightarrow> Inl AttributeError)"

definition key_filename :: "string \<Rightarrow> string" where
  "key_filename n = (if endswith n ''.key'' then n else n @ ''.key'')"

definition cert_filename :: "string \<Rightarrow> string" where
  "cert_filename n = (if endswith n ''.crt'' then n else n @ ''.crt'')"

definition get_chain_value :: "string \<Rightarrow> strdict \<Rightarrow> string" where
  "get_chain_value part item =
     (case map_of item ''chain'' of
        None \<Rightarrow> ''none''
      | Some c \<Rightarrow> if c = ''none'' then ''none'' else cert_filename (fqdn_str part c))"

definition ModuleParameters_parent :: "pydict \<Rightarrow> error + param" where
  "ModuleParameters_parent vals =
     (if values_get vals ''parent'' = Scalar PNone then Inr (Scalar PNone)
      else fqdn_name (partition_of vals) (values_get vals ''parent''))"

definition key_without_cert :: string where
  "key_without_cert =
     ''When providing a '' @ repr_str ''key'' @ '', you must also provide a '' @ repr_str ''cert''"

definition cert_without_key :: string where
  "cert_without_key =
     ''When providing a '' @ repr_str ''cert'' @ '', you must also provide a '' @ repr_str ''key''"

text \<open>The body of the loop of \<^verbatim>\<open>ModuleParameters.cert_key_chain\<close>, for one item.\<close>

definition want_bundle :: "string \<Rightarrow> strdict \<Rightarrow> error + strdict" where
  "want_bundle part item =
     (if map_of item ''key'' \<noteq> None \<and> map_of item ''cert'' = None
        then Inl (F5ModuleError key_without_cert)
      else if map_of item ''cert'' \<noteq> None \<and> map_of item ''key'' = None
        then Inl (F5ModuleError cert_without_key)
      else case map_of item ''key'' of
        None \<Rightarrow> Inl (KeyError ''key'')
      | Some k \<Rightarrow>
         (case map_of item ''cert'' of
            None \<Rightarrow> Inl (KeyError ''cert'')
          | Some c \<Rightarrow>
              let key = key_filename k;
                  cert = cert_filename c;
                  chain = get_chain_value part item;
                  name = basename cert;
                  filename = splitext_root name;
                  tmp = [(''name'', filename), (''cert'', fqdn_str part cert),
                         (''key'', fqdn_str part key), (''chain'', chain)]
              in Inr (case map_of item ''passphrase'' of
                        None \<Rightarrow> tmp
                      | Some p \<Rightarrow> dict_set ''passphrase'' p tmp)))"

fun want_bundles :: "string \<Rightarrow> strdict list \<Rightarrow> strdict list \<Rightarrow> error + strdict list" where
  "want_bundles part [] result = Inr result"
| "want_bundles part (item # items) result =
     (case want_bundle part item of
        Inl e \<Rightarrow> Inl e
      | Inr tmp \<Rightarrow> want_bundles part items (result @ [tmp]))"

text \<open>\<^verbatim>\<open>x['name']\<close>, the key of both sorts; every dict sorted has the entry.\<close>

definition name_of :: "strdict \<Rightarrow> string" where
  "name_of x = (case map_of x ''name'' of Some n \<Rightarrow> n | None \<Rightarrow> [])"

text \<open>
  The property reads None, or a list of dicts. On a str the loop runs over its characters
  and indexing one by \<^verbatim>\<open>'key'\<close> is a TypeError (no character for the empty str); a bool or
  an int cannot be iterated. \<^verbatim>\<open>sorted\<close> is stable, as \<^const>\<open>sort_key\<close> is.
\<close>

definition ModuleParameters_cert_key_chain :: "pydict \<Rightarrow> error + strdict list option" where
  "ModuleParameters_cert_key_chain vals =
     (case values_get vals ''cert_key_chain'' of
        Scalar PNone \<Rightarrow> Inr None
      | Bundles items \<Rightarrow>
          (case want_bundles (partition_of vals) items [] of
             Inl e \<Rightarrow> Inl e
           | Inr result \<Rightarrow> Inr (Some (sort_key name_of result)))
      | Scalar (PStr s) \<Rightarrow> if s = [] then Inr (Some []) else Inl TypeError
      | Scalar _ \<Rightarrow> Inl TypeError)"

text \<open>None or a list, as the value of an attribute.\<close>

definition opt_param :: "strdict list option \<Rightarrow> param" where
  "opt_param r = (case r of None \<Rightarrow> Scalar PNone | Some xs \<Rightarrow> Bundles xs)"

text \<open>
  Reading an attribute of the desired state: the property when the class has one, the
  stored value otherwise. When a property's getter raises AttributeError, Python calls
  \<^verbatim>\<open>__getattr__\<close>, which reads the stored value.
\<close>

definition ModuleParameters_getattr :: "pydict \<Rightarrow> string \<Rightarrow> error + param" where
  "ModuleParameters_getattr vals item =
     (if item = ''parent'' then
        (case ModuleParameters_parent vals of
           Inl AttributeError \<Rightarrow> Inr (values_get vals item)
         | r \<Rightarrow> r)
      else if item = ''cert_key_chain'' then
        (case ModuleParameters_cert_key_chain vals of
           Inl AttributeError \<Rightarrow> Inr (values_get vals item)
         | Inl e \<Rightarrow> Inl e
         | Inr r \<Rightarrow> Inr (opt_param r))
      else if item = ''partition'' then Inr (Scalar (PStr (partition_of vals)))
      else Inr (values_get vals item))"

subsection \<open>ApiParameters: the current state\<close>

definition have_bundle :: "strdict \<Rightarrow> error + strdict" where
  "have_bundle item =
     (case map_of item ''name'' of
        None \<Rightarrow> Inl (KeyError ''name'')
      | Some n \<Rightarrow>
          Inr (fold (\<lambda>x tmp. case map_of item x of None \<Rightarrow> tmp | Some v \<Rightarrow> dict_set x v tmp)
                 [''cert'', ''key'', ''chain'', ''passphrase''] [(''name'', n)]))"

fun have_bundles :: "strdict list \<Rightarrow> strdict list \<Rightarrow> error + strdict list" where
  "have_bundles [] result = Inr result"
| "have_bundles (item # items) result =
     (case have_bundle item of
        Inl e \<Rightarrow> Inl e
      | Inr tmp \<Rightarrow> have_bundles items (result @ [tmp]))"

definition ApiParameters_cert_key_chain :: "pydict \<Rightarrow> error + strdict list option" where
  "ApiParameters_cert_key_chain vals =
     (case values_get vals ''cert_key_chain'' of
        Scalar PNone \<Rightarrow> Inr None
      | Bundles items \<Rightarrow>
          (case have_bundles items [] of
             Inl e \<Rightarrow> Inl e
           | Inr result \<Rightarrow> Inr (Some (sort_key name_of result)))
      | Scalar (PStr s) \<Rightarrow> if s = [] then Inr (Some []) else Inl TypeError
      | Scalar _ \<Rightarrow> Inl TypeError)"

definition ApiParameters_getattr :: "pydict \<Rightarrow> string \<Rightarrow> error + param" where
  "ApiParameters_getattr vals item =
     (if item = ''cert_key_chain'' then
        (case ApiParameters_cert_key_chain vals of
           Inl AttributeError \<Rightarrow> Inr (values_get vals item)
         | Inl e \<Rightarrow> Inl e
         | Inr r \<Rightarrow> Inr (opt_param r))
      else if item = ''partition'' then Inr (Scalar (PStr (partition_of vals)))
      else Inr (values_get vals item))"


subsection \<open>Difference\<close>

text \<open>\<^verbatim>\<open>to_tuple\<close>: the items of every dict, each key and value through \<^verbatim>\<open>str\<close>.\<close>

definition to_tuple :: "strdict list \<Rightarrow> (string \<times> string) list" where
  "to_tuple items = concat (map (\<lambda>x. map (\<lambda>(k, v). (py_str (PStr k), py_str (PStr v))) x) items)"

text \<open>
  \<^verbatim>\<open>_diff_complex_items\<close>. Both arguments are None or a list of dicts, as the two
  \<^verbatim>\<open>cert_key_chain\<close> properties return them. \<^verbatim>\<open>to_tuple(have)\<close> iterates \<^verbatim>\<open>have\<close>: on
  None that is a TypeError.
\<close>

definition diff_complex_items ::
  "strdict list option \<Rightarrow> strdict list option \<Rightarrow> error + strdict list option" where
  "diff_complex_items want have =
     (if want = Some [] \<and> have = None then Inr None
      else case want of
        None \<Rightarrow> Inr None
      | Some w \<Rightarrow>
         (case have of
            None \<Rightarrow> Inl TypeError
          | Some h \<Rightarrow>
              if set (to_tuple w) \<subseteq> set (to_tuple h) then Inr None else Inr (Some w)))"

definition parent_cannot_change :: string where
  "parent_cannot_change = ''The parent profile cannot be changed''"

text \<open>The property \<^verbatim>\<open>Difference.parent\<close>: it raises or returns None.\<close>

definition Difference_parent :: "pydict \<Rightarrow> pydict \<Rightarrow> error + param" where
  "Difference_parent want have =
     (case ModuleParameters_getattr want ''parent'' of
        Inl e \<Rightarrow> Inl e
      | Inr a \<Rightarrow>
         (case ApiParameters_getattr have ''parent'' of
            Inl e \<Rightarrow> Inl e
          | Inr b \<Rightarrow>
              if \<not> param_eq a b then Inl (F5ModuleError parent_cannot_change)
              else Inr (Scalar PNone)))"

text \<open>
  The property \<^verbatim>\<open>Difference.cert_key_chain\<close>. Neither \<^verbatim>\<open>cert_key_chain\<close> property raises
  AttributeError, so reading them as attributes returns what they return.
\<close>

definition Difference_cert_key_chain :: "pydict \<Rightarrow> pydict \<Rightarrow> error + param" where
  "Difference_cert_key_chain want have =
     (case ModuleParameters_cert_key_chain want of
        Inl e \<Rightarrow> Inl e
      | Inr w \<Rightarrow>
         (case ApiParameters_cert_key_chain have of
            Inl e \<Rightarrow> Inl e
          | Inr h \<Rightarrow>
             (case diff_complex_items w h of
                Inl e \<Rightarrow> Inl e
              | Inr r \<Rightarrow> Inr (opt_param r))))"

text \<open>\<^verbatim>\<open>Difference.__default\<close>: only the read of \<^verbatim>\<open>have\<close> stands in the \<^verbatim>\<open>try\<close>.\<close>

definition Difference_default :: "pydict \<Rightarrow> pydict \<Rightarrow> string \<Rightarrow> error + param" where
  "Difference_default want have p =
     (case ModuleParameters_getattr want p of
        Inl e \<Rightarrow> Inl e
      | Inr attr1 \<Rightarrow>
         (case ApiParameters_getattr have p of
            Inl AttributeError \<Rightarrow> Inr attr1
          | Inl e \<Rightarrow> Inl e
          | Inr attr2 \<Rightarrow> if \<not> param_eq attr1 attr2 then Inr attr1 else Inr (Scalar PNone)))"

text \<open>
  \<^verbatim>\<open>Difference.compare\<close>, for the name of a field: the property of \<^verbatim>\<open>Difference\<close> when
  there is one, the default comparison when there is none or it raises AttributeError.
\<close>

definition Difference_compare :: "pydict \<Rightarrow> pydict \<Rightarrow> string \<Rightarrow> error + param" where
  "Difference_compare want have p =
     (if p = ''parent'' then
        (case Difference_parent want have of
           Inl AttributeError \<Rightarrow> Difference_default want have p
         | r \<Rightarrow> r)
      else if p = ''cert_key_chain'' then
        (case Difference_cert_key_chain want have of
           Inl AttributeError \<Rightarrow> Difference_default want have p
         | r \<Rightarrow> r)
      else Difference_default want have p)"

section \<open>The device\<close>

text \<open>
  Modelled from the spec: the device behind the vendor SDK (\<^verbatim>\<open>client.api\<close>), which is not
  among the sources: a resource-oriented API with existence check, load, create, modify
  and delete (section 6). The device holds the one resource a run addresses by name and
  partition: its attributes under the API's names, or nothing when it does not exist. Every
  request is recorded. A delete that does not take effect (section 7) leaves the resource.
\<close>

datatype call = Exists | Load | Create pydict | Modify pydict | Delete

record device =
  resource :: "pydict option"
  calls :: "call list"
  delete_effective :: bool

definition sdk_exists :: "device \<Rightarrow> bool \<times> device" where
  "sdk_exists d = (resource d \<noteq> None, d\<lparr>calls := calls d @ [Exists]\<rparr>)"

definition sdk_load :: "device \<Rightarrow> error + pydict \<times> device" where
  "sdk_load d =
     (case resource d of
        None \<Rightarrow> Inl (iControlUnexpectedHTTPError ''404 Unexpected Error: Not Found'')
      | Some attrs \<Rightarrow> Inr (attrs, d\<lparr>calls := calls d @ [Load]\<rparr>))"

definition sdk_create :: "pydict \<Rightarrow> device \<Rightarrow> device" where
  "sdk_create payload d = d\<lparr>resource := Some payload, calls := calls d @ [Create payload]\<rparr>"

definition sdk_modify :: "pydict \<Rightarrow> device \<Rightarrow> device" where
  "sdk_modify params d =
     d\<lparr>resource := map_option (dict_update params) (resource d),
       calls := calls d @ [Modify params]\<rparr>"

definition sdk_delete :: "device \<Rightarrow> device" where
  "sdk_delete d =
     d\<lparr>resource := (if delete_effective d then None else resource d),
       calls := calls d @ [Delete]\<rparr>"

section \<open>ModuleManager\<close>

text \<open>
  The state of a run: the three parameter containers (their \<^verbatim>\<open>_values\<close>), the check mode
  of the client, the device, and the calls made to \<^verbatim>\<open>module.deprecate\<close> (message and
  version). A method returns its value or the exception it raises, with the state it
  leaves.
\<close>

record manager =
  m_want :: pydict
  m_have :: pydict
  m_changes :: pydict
  check_mode :: bool
  device :: device
  deprecations :: "(string \<times> string) list"

type_synonym 'a outcome = "(error + 'a) \<times> manager"

text \<open>
  \<^verbatim>\<open>_announce_deprecations\<close>: \<^verbatim>\<open>result.pop('__warnings', [])\<close>, then one call of
  \<^verbatim>\<open>deprecate\<close> for each warning.
\<close>

fun deprecate_all :: "strdict list \<Rightarrow> manager \<Rightarrow> unit outcome" where
  "deprecate_all [] m = (Inr (), m)"
| "deprecate_all (warning # warnings) m =
     (case map_of warning ''msg'' of
        None \<Rightarrow> (Inl (KeyError ''msg''), m)
      | Some msg \<Rightarrow>
         (case map_of warning ''version'' of
            None \<Rightarrow> (Inl (KeyError ''version''), m)
          | Some version \<Rightarrow>
              deprecate_all warnings (m\<lparr>deprecations := deprecations m @ [(msg, version)]\<rparr>)))"

definition announce_deprecations :: "pydict \<Rightarrow> manager \<Rightarrow> pydict outcome" where
  "announce_deprecations result m =
     (let rest = filter (\<lambda>(k, v). k \<noteq> ''__warnings'') result in
      case map_of result ''__warnings'' of
        None \<Rightarrow> (Inr rest, m)
      | Some (Bundles warnings) \<Rightarrow>
         (case deprecate_all warnings m of
            (Inl e, m') \<Rightarrow> (Inl e, m')
          | (Inr u, m') \<Rightarrow> (Inr rest, m'))
      | Some (Scalar (PStr s)) \<Rightarrow> if s = [] then (Inr rest, m) else (Inl TypeError, m)
      | Some (Scalar v) \<Rightarrow> (Inl TypeError, m))"


subsection \<open>The manager of the client SSL profile module\<close>

text \<open>\<^verbatim>\<open>ModuleManager.__init__\<close>, from the module's parameters.\<close>

definition ssl_manager :: "pydict \<Rightarrow> bool \<Rightarrow> device \<Rightarrow> manager" where
  "ssl_manager params check dev =
     \<lparr>m_want = Parameters_init ssl_api_map params,
      m_have = Parameters_init ssl_api_map [],
      m_changes = Parameters_init ssl_api_map [],
      check_mode = check, device = dev, deprecations = []\<rparr>"

text \<open>
  The loop of \<^verbatim>\<open>_set_changed_options\<close>, over the attribute lookup of the desired state.
\<close>

fun set_changed_loop :: "(string \<Rightarrow> error + param) \<Rightarrow> string list \<Rightarrow> pydict \<Rightarrow> error + pydict" where
  "set_changed_loop ga [] changed = Inr changed"
| "set_changed_loop ga (key # keys) changed =
     (case ga key of
        Inl e \<Rightarrow> Inl e
      | Inr v \<Rightarrow>
          set_changed_loop ga keys (if v \<noteq> Scalar PNone then dict_set key v changed else changed))"

definition ssl_set_changed_options :: "manager \<Rightarrow> unit outcome" where
  "ssl_set_changed_options m =
     (case set_changed_loop (ModuleParameters_getattr (m_want m)) ssl_returnables [] of
        Inl e \<Rightarrow> (Inl e, m)
      | Inr changed \<Rightarrow>
          if changed \<noteq> [] then (Inr (), m\<lparr>m_changes := Parameters_init ssl_api_map changed\<rparr>)
          else (Inr (), m))"

text \<open>
  The loop of \<^verbatim>\<open>_update_changed_options\<close>. A change is a scalar or a list, never a dict,
  so it is always stored under its own key.
\<close>

fun ssl_diff_loop :: "pydict \<Rightarrow> pydict \<Rightarrow> string list \<Rightarrow> pydict \<Rightarrow> error + pydict" where
  "ssl_diff_loop w h [] changed = Inr changed"
| "ssl_diff_loop w h (k # ks) changed =
     (case Difference_compare w h k of
        Inl e \<Rightarrow> Inl e
      | Inr change \<Rightarrow>
          ssl_diff_loop w h ks (if change = Scalar PNone then changed else dict_set k change changed))"

definition ssl_update_changed_options :: "manager \<Rightarrow> bool outcome" where
  "ssl_update_changed_options m =
     (case ssl_diff_loop (m_want m) (m_have m) ssl_updatables [] of
        Inl e \<Rightarrow> (Inl e, m)
      | Inr changed \<Rightarrow>
          if changed \<noteq> [] then (Inr True, m\<lparr>m_changes := Parameters_init ssl_api_map changed\<rparr>)
          else (Inr False, m))"

definition ssl_should_update :: "manager \<Rightarrow> bool outcome" where
  "ssl_should_update m =
     (case ssl_update_changed_options m of
        (Inl e, m') \<Rightarrow> (Inl e, m')
      | (Inr result, m') \<Rightarrow> if result then (Inr True, m') else (Inr False, m'))"

definition ssl_exists :: "manager \<Rightarrow> bool outcome" where
  "ssl_exists m = (case sdk_exists (device m) of (result, d) \<Rightarrow> (Inr result, m\<lparr>device := d\<rparr>))"

text \<open>\<^verbatim>\<open>read_current_from_device\<close> returns \<^verbatim>\<open>ApiParameters(resource.attrs)\<close>.\<close>

definition ssl_read_current_from_device :: "manager \<Rightarrow> pydict outcome" where
  "ssl_read_current_from_device m =
     (case sdk_load (device m) of
        Inl e \<Rightarrow> (Inl e, m)
      | Inr (attrs, d) \<Rightarrow> (Inr (Parameters_init ssl_api_map attrs), m\<lparr>device := d\<rparr>))"

definition ssl_update_on_device :: "manager \<Rightarrow> unit outcome" where
  "ssl_update_on_device m =
     (case api_params ssl_api_map ssl_api_attributes (Changes_getattr (m_changes m)) of
        Inl e \<Rightarrow> (Inl e, m)
      | Inr params \<Rightarrow>
         (case sdk_load (device m) of
            Inl e \<Rightarrow> (Inl e, m)
          | Inr (attrs, d) \<Rightarrow> (Inr (), m\<lparr>device := sdk_modify params d\<rparr>)))"

text \<open>The keyword arguments of the create call: name, partition and the parameters.\<close>

definition ssl_create_on_device :: "manager \<Rightarrow> unit outcome" where
  "ssl_create_on_device m =
     (case api_params ssl_api_map ssl_api_attributes (ModuleParameters_getattr (m_want m)) of
        Inl e \<Rightarrow> (Inl e, m)
      | Inr params \<Rightarrow>
          (Inr (), m\<lparr>device :=
             sdk_create
               (dict_update params
                  [(''name'', values_get (m_want m) ''name''),
                   (''partition'', Scalar (PStr (partition_of (m_want m))))])
               (device m)\<rparr>))"

definition ssl_remove_from_device :: "manager \<Rightarrow> unit outcome" where
  "ssl_remove_from_device m =
     (case sdk_load (device m) of
        Inl e \<Rightarrow> (Inl e, m)
      | Inr (attrs, d) \<Rightarrow> (Inr (), m\<lparr>device := sdk_delete d\<rparr>))"

definition ssl_create :: "manager \<Rightarrow> bool outcome" where
  "ssl_create m =
     (case ssl_set_changed_options m of
        (Inl e, m1) \<Rightarrow> (Inl e, m1)
      | (Inr u, m1) \<Rightarrow>
         (case ModuleParameters_getattr (m_want m1) ''ciphers'' of
            Inl e \<Rightarrow> (Inl e, m1)
          | Inr c \<Rightarrow>
              let m2 = (if c = Scalar PNone
                        then m1\<lparr>m_want := Parameters_update ssl_api_map
                                   [(''ciphers'', Scalar (PStr ''DEFAULT''))] (m_want m1)\<rparr>
                        else m1)
              in if check_mode m2 then (Inr True, m2)
                 else (case ssl_create_on_device m2 of
                         (Inl e, m3) \<Rightarrow> (Inl e, m3)
                       | (Inr u', m3) \<Rightarrow> (Inr True, m3))))"

definition ssl_update :: "manager \<Rightarrow> bool outcome" where
  "ssl_update m =
     (case ssl_read_current_from_device m of
        (Inl e, m1) \<Rightarrow> (Inl e, m1)
      | (Inr h, m1) \<Rightarrow>
         (case ssl_should_update (m1\<lparr>m_have := h\<rparr>) of
            (Inl e, m2) \<Rightarrow> (Inl e, m2)
          | (Inr b, m2) \<Rightarrow>
              if \<not> b then (Inr False, m2)
              else if check_mode m2 then (Inr True, m2)
              else (case ssl_update_on_device m2 of
                      (Inl e, m3) \<Rightarrow> (Inl e, m3)
                    | (Inr u, m3) \<Rightarrow> (Inr True, m3))))"

definition ssl_present :: "manager \<Rightarrow> bool outcome" where
  "ssl_present m =
     (case ssl_exists m of
        (Inl e, m1) \<Rightarrow> (Inl e, m1)
      | (Inr ex, m1) \<Rightarrow> if ex then ssl_update m1 else ssl_create m1)"

definition ssl_remove :: "manager \<Rightarrow> bool outcome" where
  "ssl_remove m =
     (if check_mode m then (Inr True, m)
      else case ssl_remove_from_device m of
        (Inl e, m1) \<Rightarrow> (Inl e, m1)
      | (Inr u, m1) \<Rightarrow>
         (case ssl_exists m1 of
            (Inl e, m2) \<Rightarrow> (Inl e, m2)
          | (Inr ex, m2) \<Rightarrow>
              if ex then (Inl (F5ModuleError ''Failed to delete the profile.''), m2)
              else (Inr True, m2)))"

definition ssl_absent :: "manager \<Rightarrow> bool outcome" where
  "ssl_absent m =
     (case ssl_exists m of
        (Inl e, m1) \<Rightarrow> (Inl e, m1)
      | (Inr ex, m1) \<Rightarrow> if ex then ssl_remove m1 else (Inr False, m1))"

text \<open>
  The result of a run: the reportable changes, then \<^verbatim>\<open>changed\<close>, then the deprecations
  announced. Both modules end \<^verbatim>\<open>exec_module\<close> this way.
\<close>

definition report :: "(string \<times> string) list \<Rightarrow> string list \<Rightarrow> bool \<Rightarrow> manager \<Rightarrow> pydict outcome" where
  "report api_map returnables changed m =
     (let reportable = Parameters_init api_map (to_return returnables (m_changes m));
          changes = to_return returnables reportable;
          result = dict_update [(''changed'', Scalar (PBool changed))] (dict_update changes [])
      in announce_deprecations result m)"

definition ssl_exec_module :: "manager \<Rightarrow> pydict outcome" where
  "ssl_exec_module m =
     (let state = values_get (m_want m) ''state'' in
      case (if param_eq state (Scalar (PStr ''present'')) then ssl_present m
            else if param_eq state (Scalar (PStr ''absent'')) then ssl_absent m
            else (Inr False, m)) of
        (Inl (iControlUnexpectedHTTPError s), m1) \<Rightarrow> (Inl (F5ModuleError s), m1)
      | (Inl e, m1) \<Rightarrow> (Inl e, m1)
      | (Inr changed, m1) \<Rightarrow> report ssl_api_map ssl_returnables changed m1)"


section \<open>The global settings module\<close>

subsection \<open>Parameters\<close>

definition sys_api_map :: "(string \<times> string) list" where
  "sys_api_map =
     [(''guiSecurityBanner'', ''security_banner''),
      (''guiSecurityBannerText'', ''banner_text''),
      (''guiSetup'', ''gui_setup''),
      (''lcdDisplay'', ''lcd_display''),
      (''mgmtDhcp'', ''mgmt_dhcp''),
      (''netReboot'', ''net_reboot''),
      (''quietBoot'', ''quiet_boot''),
      (''consoleInactivityTimeout'', ''console_timeout'')]"

definition sys_api_attributes :: "string list" where
  "sys_api_attributes =
     [''guiSecurityBanner'', ''guiSecurityBannerText'', ''guiSetup'', ''lcdDisplay'',
      ''mgmtDhcp'', ''netReboot'', ''quietBoot'', ''consoleInactivityTimeout'']"

definition sys_returnables :: "string list" where
  "sys_returnables =
     [''security_banner'', ''banner_text'', ''gui_setup'', ''lcd_display'',
      ''mgmt_dhcp'', ''net_reboot'', ''quiet_boot'', ''console_timeout'']"

definition sys_updatables :: "string list" where
  "sys_updatables =
     [''security_banner'', ''banner_text'', ''gui_setup'', ''lcd_display'',
      ''mgmt_dhcp'', ''net_reboot'', ''quiet_boot'', ''console_timeout'']"

subsection \<open>ModuleParameters\<close>

text \<open>
  Modelled from the spec: the constants \<^verbatim>\<open>BOOLEANS_TRUE\<close> and \<^verbatim>\<open>BOOLEANS_FALSE\<close> of
  \<^verbatim>\<open>ansible.module_utils.parsing.convert_bool\<close>, missing from the sources: the conventional
  boolean tokens true, yes, 1 and false, no, 0 (section 4.2), as strings and as the
  numbers 1 and 0 (which the booleans True and False equal).
\<close>

definition BOOLEANS_TRUE :: "pyval list" where
  "BOOLEANS_TRUE = [PStr ''true'', PStr ''yes'', PStr ''1'', PInt 1]"

definition BOOLEANS_FALSE :: "pyval list" where
  "BOOLEANS_FALSE = [PStr ''false'', PStr ''no'', PStr ''0'', PInt 0]"

definition deprecation :: strdict where
  "deprecation =
     [(''version'', ''2.5''),
      (''msg'', ''enabled/disabled are deprecated. Use boolean values (true, yes, no, 1, 0) instead.'')]"

text \<open>\<^verbatim>\<open>self._values['__warnings'].append(...)\<close>: only a list has \<^verbatim>\<open>append\<close>.\<close>

definition append_warning :: "pydict \<Rightarrow> error + pydict" where
  "append_warning vals =
     (case values_get vals ''__warnings'' of
        Bundles ws \<Rightarrow> Inr (dict_set ''__warnings'' (Bundles (ws @ [deprecation])) vals)
      | Scalar v \<Rightarrow> Inl AttributeError)"

text \<open>
  \<^verbatim>\<open>_get_boolean_like_return_value\<close> returns a value and leaves the \<^verbatim>\<open>_values\<close> it has
  changed.
\<close>

definition get_boolean_like_return_value :: "pydict \<Rightarrow> string \<Rightarrow> (error + param) \<times> pydict" where
  "get_boolean_like_return_value vals parameter =
     (if values_get vals parameter = Scalar PNone then (Inr (Scalar PNone), vals)
      else case (if py_in (values_get vals parameter) [PStr ''enabled'', PStr ''disabled'']
                 then append_warning vals else Inr vals) of
        Inl e \<Rightarrow> (Inl e, vals)
      | Inr vals' \<Rightarrow>
          let true = BOOLEANS_TRUE @ [PStr ''True''];
              false = BOOLEANS_FALSE @ [PStr ''False'']
          in if py_in (values_get vals' parameter) true then (Inr (Scalar (PStr ''enabled'')), vals')
             else if py_in (values_get vals' parameter) false then (Inr (Scalar (PStr ''disabled'')), vals')
             else (Inr (Scalar (PStr (param_str (values_get vals' parameter)))), vals'))"

definition security_banner :: "pydict \<Rightarrow> (error + param) \<times> pydict" where
  "security_banner vals = get_boolean_like_return_value vals ''security_banner''"

definition gui_setup :: "pydict \<Rightarrow> (error + param) \<times> pydict" where
  "gui_setup vals = get_boolean_like_return_value vals ''gui_setup''"

definition banner_text :: "pydict \<Rightarrow> (error + param) \<times> pydict" where
  "banner_text vals = get_boolean_like_return_value vals ''banner_text''"

definition lcd_display :: "pydict \<Rightarrow> (error + param) \<times> pydict" where
  "lcd_display vals = get_boolean_like_return_value vals ''lcd_display''"

definition mgmt_dhcp :: "pydict \<Rightarrow> (error + param) \<times> pydict" where
  "mgmt_dhcp vals = get_boolean_like_return_value vals ''mgmt_dhcp''"

definition net_reboot :: "pydict \<Rightarrow> (error + param) \<times> pydict" where
  "net_reboot vals = get_boolean_like_return_value vals ''net_reboot''"

definition quiet_boot :: "pydict \<Rightarrow> (error + param) \<times> pydict" where
  "quiet_boot vals = get_boolean_like_return_value vals ''quiet_boot''"

text \<open>The properties of the class, by name.\<close>

definition sys_property :: "string \<Rightarrow> (pydict \<Rightarrow> (error + param) \<times> pydict) option" where
  "sys_property item =
     map_of
       [(''security_banner'', security_banner), (''gui_setup'', gui_setup),
        (''banner_text'', banner_text), (''lcd_display'', lcd_display),
        (''mgmt_dhcp'', mgmt_dhcp), (''net_reboot'', net_reboot),
        (''quiet_boot'', quiet_boot)] item"

text \<open>
  Reading an attribute of the desired state: the property when the class has one (Python
  reads the stored value when its getter raises AttributeError), the stored value
  otherwise.
\<close>

definition sys_ModuleParameters_getattr :: "pydict \<Rightarrow> string \<Rightarrow> (error + param) \<times> pydict" where
  "sys_ModuleParameters_getattr vals item =
     (case sys_property item of
        Some getter \<Rightarrow>
         (case getter vals of
            (Inl AttributeError, vals') \<Rightarrow> (Inr (values_get vals' item), vals')
          | r \<Rightarrow> r)
      | None \<Rightarrow>
          if item = ''partition'' then (Inr (Scalar (PStr (partition_of vals))), vals)
          else (Inr (values_get vals item), vals))"

text \<open>\<^verbatim>\<open>ApiParameters\<close> defines no property.\<close>

definition sys_ApiParameters_getattr :: "pydict \<Rightarrow> string \<Rightarrow> error + param" where
  "sys_ApiParameters_getattr vals item =
     (if item = ''partition'' then Inr (Scalar (PStr (partition_of vals)))
      else Inr (values_get vals item))"

text \<open>\<^verbatim>\<open>api_params\<close> of the desired state, whose reads change it.\<close>

fun sys_api_params_loop :: "pydict \<Rightarrow> string list \<Rightarrow> pydict \<Rightarrow> (error + pydict) \<times> pydict" where
  "sys_api_params_loop vals [] result = (Inr result, vals)"
| "sys_api_params_loop vals (a # as) result =
     (case sys_ModuleParameters_getattr vals (map_key sys_api_map a) of
        (Inl e, vals') \<Rightarrow> (Inl e, vals')
      | (Inr v, vals') \<Rightarrow> sys_api_params_loop vals' as (dict_set a v result))"

definition sys_api_params :: "pydict \<Rightarrow> (error + pydict) \<times> pydict" where
  "sys_api_params vals =
     (case sys_api_params_loop vals sys_api_attributes [] of
        (Inl e, vals') \<Rightarrow> (Inl e, vals')
      | (Inr result, vals') \<Rightarrow> (Inr (filter_params result), vals'))"

subsection \<open>Difference\<close>

text \<open>
  This \<^verbatim>\<open>Difference\<close> has no property: \<^verbatim>\<open>compare\<close> of a field is the default comparison.
\<close>

definition sys_Difference_default :: "pydict \<Rightarrow> pydict \<Rightarrow> string \<Rightarrow> (error + param) \<times> pydict" where
  "sys_Difference_default w h p =
     (case sys_ModuleParameters_getattr w p of
        (Inl e, w') \<Rightarrow> (Inl e, w')
      | (Inr attr1, w') \<Rightarrow>
         (case sys_ApiParameters_getattr h p of
            Inl AttributeError \<Rightarrow> (Inr attr1, w')
          | Inl e \<Rightarrow> (Inl e, w')
          | Inr attr2 \<Rightarrow>
              if \<not> param_eq attr1 attr2 then (Inr attr1, w') else (Inr (Scalar PNone), w')))"

definition sys_Difference_compare :: "pydict \<Rightarrow> pydict \<Rightarrow> string \<Rightarrow> (error + param) \<times> pydict" where
  "sys_Difference_compare w h p = sys_Difference_default w h p"

subsection \<open>The manager of the global settings module\<close>

definition sys_manager :: "pydict \<Rightarrow> bool \<Rightarrow> device \<Rightarrow> manager" where
  "sys_manager params check dev =
     \<lparr>m_want = Parameters_init sys_api_map params,
      m_have = Parameters_init sys_api_map [],
      m_changes = Parameters_init sys_api_map [],
      check_mode = check, device = dev, deprecations = []\<rparr>"

fun sys_diff_loop :: "pydict \<Rightarrow> pydict \<Rightarrow> string list \<Rightarrow> pydict \<Rightarrow> (error + pydict) \<times> pydict" where
  "sys_diff_loop w h [] changed = (Inr changed, w)"
| "sys_diff_loop w h (k # ks) changed =
     (case sys_Difference_compare w h k of
        (Inl e, w') \<Rightarrow> (Inl e, w')
      | (Inr change, w') \<Rightarrow>
          sys_diff_loop w' h ks (if change = Scalar PNone then changed else dict_set k change changed))"

definition sys_update_changed_options :: "manager \<Rightarrow> bool outcome" where
  "sys_update_changed_options m =
     (case sys_diff_loop (m_want m) (m_have m) sys_updatables [] of
        (Inl e, w') \<Rightarrow> (Inl e, m\<lparr>m_want := w'\<rparr>)
      | (Inr changed, w') \<Rightarrow>
          if changed \<noteq> []
          then (Inr True, m\<lparr>m_want := w', m_changes := Parameters_init sys_api_map changed\<rparr>)
          else (Inr False, m\<lparr>m_want := w'\<rparr>))"

definition sys_should_update :: "manager \<Rightarrow> bool outcome" where
  "sys_should_update m =
     (case sys_update_changed_options m of
        (Inl e, m') \<Rightarrow> (Inl e, m')
      | (Inr result, m') \<Rightarrow> if result then (Inr True, m') else (Inr False, m'))"

definition sys_read_current_from_device :: "manager \<Rightarrow> pydict outcome" where
  "sys_read_current_from_device m =
     (case sdk_load (device m) of
        Inl e \<Rightarrow> (Inl e, m)
      | Inr (attrs, d) \<Rightarrow> (Inr (Parameters_init sys_api_map attrs), m\<lparr>device := d\<rparr>))"

text \<open>\<^verbatim>\<open>update_on_device\<close> sends the parameters of the desired state, not the changes.\<close>

definition sys_update_on_device :: "manager \<Rightarrow> unit outcome" where
  "sys_update_on_device m =
     (case sys_api_params (m_want m) of
        (Inl e, w') \<Rightarrow> (Inl e, m\<lparr>m_want := w'\<rparr>)
      | (Inr params, w') \<Rightarrow>
         (case sdk_load (device m) of
            Inl e \<Rightarrow> (Inl e, m\<lparr>m_want := w'\<rparr>)
          | Inr (attrs, d) \<Rightarrow> (Inr (), m\<lparr>m_want := w', device := sdk_modify params d\<rparr>)))"

definition sys_update :: "manager \<Rightarrow> bool outcome" where
  "sys_update m =
     (case sys_read_current_from_device m of
        (Inl e, m1) \<Rightarrow> (Inl e, m1)
      | (Inr h, m1) \<Rightarrow>
         (case sys_should_update (m1\<lparr>m_have := h\<rparr>) of
            (Inl e, m2) \<Rightarrow> (Inl e, m2)
          | (Inr b, m2) \<Rightarrow>
              if \<not> b then (Inr False, m2)
              else if check_mode m2 then (Inr True, m2)
              else (case sys_update_on_device m2 of
                      (Inl e, m3) \<Rightarrow> (Inl e, m3)
                    | (Inr u, m3) \<Rightarrow> (Inr True, m3))))"

definition sys_present :: "manager \<Rightarrow> bool outcome" where
  "sys_present m = sys_update m"

definition sys_exec_module :: "manager \<Rightarrow> pydict outcome" where
  "sys_exec_module m =
     (case sys_present m of
        (Inl (iControlUnexpectedHTTPError s), m1) \<Rightarrow> (Inl (F5ModuleError s), m1)
      | (Inl e, m1) \<Rightarrow> (Inl e, m1)
      | (Inr changed, m1) \<Rightarrow> report sys_api_map sys_returnables changed m1)"


section \<open>Properties\<close>

subsection \<open>The bundle comparison\<close>



text \<open>
  C10: the bundle comparison is not total. With a desired list that is not empty and an
  absent current value, \<^verbatim>\<open>to_tuple(have)\<close> iterates None: the comparison raises a TypeError,
  and so does a run that gives a certificate bundle to a profile whose device attributes
  have no \<^verbatim>\<open>certKeyChain\<close>.
\<close>

theorem bundle_diff_raises_on_absent_current:
  "diff_complex_items
     (Some [[(''name'', ''a''), (''cert'', ''/Common/a.crt''), (''key'', ''/Common/a.key''),
             (''chain'', ''none'')]])
     None = Inl TypeError \<and>
   fst (ssl_exec_module
     (ssl_manager
        [(''name'', Scalar (PStr ''p'')), (''state'', Scalar (PStr ''present'')),
         (''cert_key_chain'', Bundles [[(''cert'', ''a''), (''key'', ''a'')]])]
        False
        \<lparr>resource = Some [(''name'', Scalar (PStr ''p'')), (''ciphers'', Scalar (PStr ''DEFAULT''))],
         calls = [], delete_effective = True\<rparr>)) = Inl TypeError"
  by code_simp

subsection \<open>The parent template\<close>

text \<open>
  C1: the comparison of the field \<^verbatim>\<open>parent\<close> raises the immutability error when the
  desired parent \<^verbatim>\<open>/Common/clientssl\<close> differs from the current parent \<^verbatim>\<open>/Common/other\<close>,
  but \<^verbatim>\<open>parent\<close> is not among the updatable fields, the only ones a run compares: the run
  ends without an error and reports no change.
\<close>

theorem parent_change_not_detected:
  "''parent'' \<notin> set ssl_updatables \<and>
   Difference_compare
     (Parameters_init ssl_api_map
        [(''name'', Scalar (PStr ''p'')), (''parent'', Scalar (PStr ''/Common/clientssl'')),
         (''state'', Scalar (PStr ''present''))])
     (Parameters_init ssl_api_map
        [(''name'', Scalar (PStr ''p'')), (''parent'', Scalar (PStr ''/Common/other''))])
     ''parent'' = Inl (F5ModuleError parent_cannot_change) \<and>
   fst (ssl_exec_module
     (ssl_manager
        [(''name'', Scalar (PStr ''p'')), (''parent'', Scalar (PStr ''/Common/clientssl'')),
         (''state'', Scalar (PStr ''present''))]
        False
        \<lparr>resource = Some [(''name'', Scalar (PStr ''p'')), (''parent'', Scalar (PStr ''/Common/other''))],
         calls = [], delete_effective = True\<rparr>)) =
     Inr [(''changed'', Scalar (PBool False))]"
  by code_simp

subsection \<open>Deprecation warnings\<close>

text \<open>
  C2: a run of the global settings module with the legacy token \<^verbatim>\<open>enabled\<close> for
  \<^verbatim>\<open>gui_setup\<close> announces no deprecation. The warnings are appended to the \<^verbatim>\<open>_values\<close> of
  the desired state, once for each read of the property (two reads when the device is
  modified, one in check mode), while \<^verbatim>\<open>_announce_deprecations\<close> looks for them in the
  result, which holds the returnable fields and \<^verbatim>\<open>changed\<close> only.
\<close>

theorem deprecation_never_announced:
  "fst (sys_exec_module
     (sys_manager [(''gui_setup'', Scalar (PStr ''enabled''))] False
        \<lparr>resource = Some [(''guiSetup'', Scalar (PStr ''disabled''))],
         calls = [], delete_effective = True\<rparr>)) =
     Inr [(''gui_setup'', Scalar (PStr ''enabled'')), (''changed'', Scalar (PBool True))] \<and>
   deprecations (snd (sys_exec_module
     (sys_manager [(''gui_setup'', Scalar (PStr ''enabled''))] False
        \<lparr>resource = Some [(''guiSetup'', Scalar (PStr ''disabled''))],
         calls = [], delete_effective = True\<rparr>))) = [] \<and>
   values_get (m_want (snd (sys_exec_module
     (sys_manager [(''gui_setup'', Scalar (PStr ''enabled''))] False
        \<lparr>resource = Some [(''guiSetup'', Scalar (PStr ''disabled''))],
         calls = [], delete_effective = True\<rparr>)))) ''__warnings'' =
     Bundles [deprecation, deprecation] \<and>
   deprecations (snd (sys_exec_module
     (sys_manager [(''gui_setup'', Scalar (PStr ''enabled''))] True
        \<lparr>resource = Some [(''guiSetup'', Scalar (PStr ''disabled''))],
         calls = [], delete_effective = True\<rparr>))) = [] \<and>
   values_get (m_want (snd (sys_exec_module
     (sys_manager [(''gui_setup'', Scalar (PStr ''enabled''))] True
        \<lparr>resource = Some [(''guiSetup'', Scalar (PStr ''disabled''))],
         calls = [], delete_effective = True\<rparr>)))) ''__warnings'' =
     Bundles [deprecation]"
  by code_simp


subsection \<open>Boolean-like fields\<close>

lemma map_of_dict_set: "map_of (dict_set k v d) k' = (if k' = k then Some v else map_of d k')"
  by (induction d) auto

lemma values_get_dict_set:
  "values_get (dict_set k v d) k' = (if k' = k then v else values_get d k')"
  by (simp add: values_get_def map_of_dict_set)


lemma py_in_true:
  "py_in v (BOOLEANS_TRUE @ [PStr ''True'']) =
     (v \<in> Scalar ` {PStr ''true'', PStr ''yes'', PStr ''1'', PStr ''True'', PInt 1, PBool True})"
proof (cases v)
  case (Scalar x)
  then show ?thesis
    by (cases x) (auto simp: py_in_def BOOLEANS_TRUE_def)
next
  case (Bundles bs)
  then show ?thesis by (auto simp: py_in_def BOOLEANS_TRUE_def)
qed

lemma py_in_false:
  "py_in v (BOOLEANS_FALSE @ [PStr ''False'']) =
     (v \<in> Scalar ` {PStr ''false'', PStr ''no'', PStr ''0'', PStr ''False'', PInt 0, PBool False})"
proof (cases v)
  case (Scalar x)
  then show ?thesis
    by (cases x) (auto simp: py_in_def BOOLEANS_FALSE_def)
next
  case (Bundles bs)
  then show ?thesis by (auto simp: py_in_def BOOLEANS_FALSE_def)
qed

lemma py_in_legacy:
  "py_in v [PStr ''enabled'', PStr ''disabled''] =
     (v = Scalar (PStr ''enabled'') \<or> v = Scalar (PStr ''disabled''))"
proof (cases v)
  case (Scalar x)
  then show ?thesis
    by (cases x) (auto simp: py_in_def)
next
  case (Bundles bs)
  then show ?thesis by (auto simp: py_in_def)
qed

lemma get_boolean_like_return_value_eq:
  assumes "values_get vals ''__warnings'' = Bundles ws"
  shows "get_boolean_like_return_value vals p =
     (if values_get vals p = Scalar PNone then (Inr (Scalar PNone), vals)
      else
        (Inr (Scalar (PStr
           (if values_get vals p \<in> Scalar ` {PStr ''true'', PStr ''yes'', PStr ''1'', PStr ''True'', PInt 1, PBool True}
            then ''enabled''
            else if values_get vals p \<in> Scalar ` {PStr ''false'', PStr ''no'', PStr ''0'', PStr ''False'', PInt 0, PBool False}
            then ''disabled''
            else param_str (values_get vals p)))),
         if values_get vals p = Scalar (PStr ''enabled'') \<or> values_get vals p = Scalar (PStr ''disabled'')
         then dict_set ''__warnings'' (Bundles (ws @ [deprecation])) vals else vals))"
proof (cases "values_get vals p = Scalar (PStr ''enabled'') \<or> values_get vals p = Scalar (PStr ''disabled'')")
  case True
  then have ne: "p \<noteq> ''__warnings''" using assms by auto
  from True ne assms show ?thesis
    unfolding get_boolean_like_return_value_def py_in_legacy
    by (auto simp: append_warning_def values_get_dict_set py_in_true py_in_false Let_def)
next
  case False
  then show ?thesis
    unfolding get_boolean_like_return_value_def py_in_legacy
    by (simp add: py_in_true py_in_false Let_def)
qed


text \<open>
  C4: the normalization returns None for a None input, \<^verbatim>\<open>enabled\<close> for the truth-like tokens
  and the literal \<^verbatim>\<open>enabled\<close>, \<^verbatim>\<open>disabled\<close> for the false-like tokens and the literal
  \<^verbatim>\<open>disabled\<close>, and the string form of any other value. The warnings of the container are a
  list, as \<^verbatim>\<open>Parameters.__init__\<close> leaves them.
\<close>

theorem boolean_like_normalization:
  assumes "values_get vals ''__warnings'' = Bundles ws"
  shows "fst (get_boolean_like_return_value vals p) =
     (if values_get vals p = Scalar PNone then Inr (Scalar PNone)
      else if values_get vals p = Scalar (PStr ''enabled'') \<or>
              values_get vals p \<in> Scalar ` {PStr ''true'', PStr ''yes'', PStr ''1'', PStr ''True'', PInt 1, PBool True}
        then Inr (Scalar (PStr ''enabled''))
      else if values_get vals p = Scalar (PStr ''disabled'') \<or>
              values_get vals p \<in> Scalar ` {PStr ''false'', PStr ''no'', PStr ''0'', PStr ''False'', PInt 0, PBool False}
        then Inr (Scalar (PStr ''disabled''))
      else Inr (Scalar (PStr (param_str (values_get vals p)))))"
  by (auto simp: get_boolean_like_return_value_eq [OF assms])

theorem boolean_like_normalization_witness:
  "values_get (Parameters_init sys_api_map [(''gui_setup'', Scalar (PBool True))]) ''__warnings'' = Bundles [] \<and>
   fst (get_boolean_like_return_value
          (Parameters_init sys_api_map [(''gui_setup'', Scalar (PBool True))]) ''gui_setup'') =
     Inr (Scalar (PStr ''enabled''))"
proof -
  have h: "values_get (Parameters_init sys_api_map [(''gui_setup'', Scalar (PBool True))]) ''__warnings'' = Bundles []"
    by code_simp
  have v: "values_get (Parameters_init sys_api_map [(''gui_setup'', Scalar (PBool True))]) ''gui_setup'' = Scalar (PBool True)"
    by code_simp
  show ?thesis
    using h boolean_like_normalization [OF h, of "''gui_setup''"] by (simp add: v)
qed

text \<open>
  C9: reading \<^verbatim>\<open>banner_text\<close> of the desired state goes through the same normalization as
  the on/off fields: a truth-like token reads as \<^verbatim>\<open>enabled\<close>, a false-like token as
  \<^verbatim>\<open>disabled\<close>, the literals \<^verbatim>\<open>enabled\<close> and \<^verbatim>\<open>disabled\<close> read as themselves and append one
  deprecation warning, and any other text reads as its string form.
\<close>

theorem banner_text_boolean_like:
  assumes "values_get vals ''__warnings'' = Bundles ws"
  shows "sys_ModuleParameters_getattr vals ''banner_text'' =
     (if values_get vals ''banner_text'' = Scalar PNone then (Inr (Scalar PNone), vals)
      else
        (Inr (Scalar (PStr
           (if values_get vals ''banner_text'' \<in>
                 Scalar ` {PStr ''true'', PStr ''yes'', PStr ''1'', PStr ''True'', PInt 1, PBool True}
            then ''enabled''
            else if values_get vals ''banner_text'' \<in>
                 Scalar ` {PStr ''false'', PStr ''no'', PStr ''0'', PStr ''False'', PInt 0, PBool False}
            then ''disabled''
            else param_str (values_get vals ''banner_text'')))),
         if values_get vals ''banner_text'' = Scalar (PStr ''enabled'') \<or>
            values_get vals ''banner_text'' = Scalar (PStr ''disabled'')
         then dict_set ''__warnings'' (Bundles (ws @ [deprecation])) vals else vals))"
proof -
  have "sys_property ''banner_text'' = Some banner_text"
    by (simp add: sys_property_def)
  then show ?thesis
    by (simp add: sys_ModuleParameters_getattr_def banner_text_def
        get_boolean_like_return_value_eq [OF assms])
qed

theorem banner_text_boolean_like_witness:
  "values_get (Parameters_init sys_api_map [(''banner_text'', Scalar (PStr ''enabled''))]) ''__warnings'' = Bundles [] \<and>
   sys_ModuleParameters_getattr
      (Parameters_init sys_api_map [(''banner_text'', Scalar (PStr ''enabled''))]) ''banner_text'' =
     (Inr (Scalar (PStr ''enabled'')),
      [(''__warnings'', Bundles [deprecation]), (''banner_text'', Scalar (PStr ''enabled''))]) \<and>
   fst (sys_ModuleParameters_getattr
      (Parameters_init sys_api_map [(''banner_text'', Scalar (PStr ''yes''))]) ''banner_text'') =
     Inr (Scalar (PStr ''enabled''))"
proof -
  have h: "values_get (Parameters_init sys_api_map [(''banner_text'', Scalar (PStr ''enabled''))]) ''__warnings'' = Bundles []"
    by code_simp
  have v: "values_get (Parameters_init sys_api_map [(''banner_text'', Scalar (PStr ''enabled''))]) ''banner_text'' = Scalar (PStr ''enabled'')"
    by code_simp
  have d: "dict_set ''__warnings'' (Bundles [deprecation])
      (Parameters_init sys_api_map [(''banner_text'', Scalar (PStr ''enabled''))]) =
      [(''__warnings'', Bundles [deprecation]), (''banner_text'', Scalar (PStr ''enabled''))]"
    by code_simp
  have h2: "values_get (Parameters_init sys_api_map [(''banner_text'', Scalar (PStr ''yes''))]) ''__warnings'' = Bundles []"
    by code_simp
  have v2: "values_get (Parameters_init sys_api_map [(''banner_text'', Scalar (PStr ''yes''))]) ''banner_text'' = Scalar (PStr ''yes'')"
    by code_simp
  have a: "sys_ModuleParameters_getattr
      (Parameters_init sys_api_map [(''banner_text'', Scalar (PStr ''enabled''))]) ''banner_text'' =
     (Inr (Scalar (PStr ''enabled'')),
      [(''__warnings'', Bundles [deprecation]), (''banner_text'', Scalar (PStr ''enabled''))])"
    using banner_text_boolean_like [OF h] by (simp add: v d)
  have b: "fst (sys_ModuleParameters_getattr
      (Parameters_init sys_api_map [(''banner_text'', Scalar (PStr ''yes''))]) ''banner_text'') =
     Inr (Scalar (PStr ''enabled''))"
    using banner_text_boolean_like [OF h2] by (simp add: v2)
  from h a b show ?thesis by simp
qed


subsection \<open>Runs of the client SSL profile module\<close>

lemma ssl_update_ciphers:
  "Parameters_update ssl_api_map [(''ciphers'', v)] vals = dict_set ''ciphers'' v vals"
  by (simp add: Parameters_update_def map_key_def ssl_api_map_def)

lemma partition_of_dict_set:
  "k \<noteq> ''partition'' \<Longrightarrow> partition_of (dict_set k v vals) = partition_of vals"
  by (simp add: partition_of_def values_get_dict_set)

lemma want_ckc_dict_set:
  "k \<noteq> ''partition'' \<Longrightarrow> k \<noteq> ''cert_key_chain'' \<Longrightarrow>
   ModuleParameters_cert_key_chain (dict_set k v vals) = ModuleParameters_cert_key_chain vals"
  by (simp add: ModuleParameters_cert_key_chain_def values_get_dict_set partition_of_dict_set
      cong: param.case_cong)

lemma fst_dict_set: "fst ` set (dict_set k v d) = insert k (fst ` set d)"
proof (induction d)
  case Nil
  show ?case by simp
next
  case (Cons a d)
  obtain k' v' where a: "a = (k', v')" by (cases a)
  show ?case
  proof (cases "k = k'")
    case True
    then show ?thesis by (simp add: a)
  next
    case False
    then have "fst ` set (dict_set k v (a # d)) = insert k' (fst ` set (dict_set k v d))"
      by (simp add: a)
    also have "\<dots> = insert k' (insert k (fst ` set d))"
      by (simp only: Cons.IH)
    finally show ?thesis by (auto simp: a)
  qed
qed

lemma fst_dict_update: "fst ` set (dict_update e d) = fst ` set e \<union> fst ` set d"
  unfolding dict_update_def
proof (induction e arbitrary: d)
  case Nil
  then show ?case by simp
next
  case (Cons x e)
  obtain k v where x: "x = (k, v)" by (cases x)
  have "fst ` set (fold (\<lambda>(k, v). dict_set k v) e (dict_set k v d)) =
        fst ` set e \<union> insert k (fst ` set d)"
    by (simp only: Cons.IH fst_dict_set)
  then show ?case by (auto simp: x)
qed

lemma fst_fold_dict_set:
  "fst ` set (fold (\<lambda>r. dict_set r (f r)) rs acc) = set rs \<union> fst ` set acc"
proof (induction rs arbitrary: acc)
  case Nil
  then show ?case by simp
next
  case (Cons r rs)
  have "fst ` set (fold (\<lambda>r. dict_set r (f r)) rs (dict_set r (f r) acc)) =
        set rs \<union> insert r (fst ` set acc)"
    by (simp only: Cons.IH fst_dict_set)
  then show ?case by auto
qed

lemma fst_to_return: "fst ` set (to_return rs vals) \<subseteq> set rs"
  unfolding to_return_def filter_params_def
  using fst_fold_dict_set [of "values_get vals" rs "[]"] by auto

lemma report_eq:
  assumes "''__warnings'' \<notin> set rs"
  shows "report am rs c m =
     (Inr (dict_update [(''changed'', Scalar (PBool c))]
             (dict_update (to_return rs (Parameters_init am (to_return rs (m_changes m)))) [])), m)"
proof -
  let ?res = "dict_update [(''changed'', Scalar (PBool c))]
             (dict_update (to_return rs (Parameters_init am (to_return rs (m_changes m)))) [])"
  have keys: "fst ` set ?res \<subseteq> insert ''changed'' (set rs)"
    using fst_to_return [of rs "Parameters_init am (to_return rs (m_changes m))"]
    by (auto simp: fst_dict_update)
  with assms have nw: "''__warnings'' \<notin> fst ` set ?res" by auto
  then have none: "map_of ?res ''__warnings'' = None"
    by (simp add: map_of_eq_None_iff)
  from nw have "\<forall>x\<in>set ?res. fst x \<noteq> ''__warnings''" by force
  then have filt: "filter (\<lambda>(k, v). k \<noteq> ''__warnings'') ?res = ?res"
    by (simp add: filter_id_conv case_prod_beta)
  show ?thesis
    by (simp add: report_def announce_deprecations_def Let_def none filt)
qed


lemma ssl_set_changed_options_frame:
  "\<exists>c. ssl_set_changed_options m = (Inr (), m\<lparr>m_changes := c\<rparr>)"
proof -
  have "ssl_set_changed_options m = (Inr (), m) \<or>
        (\<exists>c. ssl_set_changed_options m = (Inr (), m\<lparr>m_changes := c\<rparr>))"
    by (auto simp add: ssl_set_changed_options_def ssl_returnables_def ModuleParameters_getattr_def)
  moreover have "m = m\<lparr>m_changes := m_changes m\<rparr>" by simp
  ultimately show ?thesis by metis
qed

lemma want_api_params:
  assumes "ModuleParameters_cert_key_chain w = Inr r"
  shows "api_params ssl_api_map ssl_api_attributes (ModuleParameters_getattr w) =
     Inr (filter_params
            [(''ciphers'', values_get w ''ciphers''), (''certKeyChain'', opt_param r),
             (''ocspStapling'', values_get w ''ocsp_stapling'')])"
  by (simp add: api_params_def ssl_api_attributes_def ssl_api_map_def map_key_def
      ModuleParameters_getattr_def assms)

lemma create_payload_ciphers:
  "map_of (dict_update
       (filter_params [(''ciphers'', Scalar (PStr ''DEFAULT'')), (''certKeyChain'', a), (''ocspStapling'', b)])
       [(''name'', n), (''partition'', p)]) ''ciphers'' = Some (Scalar (PStr ''DEFAULT''))"
  by (simp add: filter_params_def dict_update_def)

text \<open>
  C8: a run that creates the profile (state \<^verbatim>\<open>present\<close>, no such profile on the device, no
  check mode) for a user who gave no \<^verbatim>\<open>ciphers\<close> sends one create call, whose payload has
  \<^verbatim>\<open>ciphers = DEFAULT\<close>, and reports a change. The certificate bundles given, if any, are
  well formed: their derivation succeeds.
\<close>

theorem create_sends_default_ciphers:
  assumes state: "values_get (m_want m) ''state'' = Scalar (PStr ''present'')"
    and absent: "resource (device m) = None"
    and live: "\<not> check_mode m"
    and nociphers: "values_get (m_want m) ''ciphers'' = Scalar PNone"
    and ckc: "ModuleParameters_cert_key_chain (m_want m) = Inr r"
  shows "\<exists>payload result.
     calls (device (snd (ssl_exec_module m))) = calls (device m) @ [Exists, Create payload] \<and>
     map_of payload ''ciphers'' = Some (Scalar (PStr ''DEFAULT'')) \<and>
     fst (ssl_exec_module m) = Inr result \<and>
     map_of result ''changed'' = Some (Scalar (PBool True))"
proof -
  let ?m1 = "m\<lparr>device := (device m)\<lparr>calls := calls (device m) @ [Exists]\<rparr>\<rparr>"
  obtain c where sc: "ssl_set_changed_options ?m1 = (Inr (), ?m1\<lparr>m_changes := c\<rparr>)"
    using ssl_set_changed_options_frame by blast
  let ?w = "dict_set ''ciphers'' (Scalar (PStr ''DEFAULT'')) (m_want m)"
  let ?m2 = "?m1\<lparr>m_changes := c, m_want := ?w\<rparr>"
  have ckc': "ModuleParameters_cert_key_chain ?w = Inr r"
    by (simp add: want_ckc_dict_set ckc)
  let ?payload = "dict_update
       (filter_params [(''ciphers'', Scalar (PStr ''DEFAULT'')), (''certKeyChain'', opt_param r),
          (''ocspStapling'', values_get (m_want m) ''ocsp_stapling'')])
       [(''name'', values_get (m_want m) ''name''),
        (''partition'', Scalar (PStr (partition_of (m_want m))))]"
  have cod: "ssl_create_on_device ?m2 =
      (Inr (), ?m2\<lparr>device := sdk_create ?payload (device ?m2)\<rparr>)"
    by (simp add: ssl_create_on_device_def want_api_params [OF ckc'] values_get_dict_set
        partition_of_dict_set)
  have cr: "ssl_create ?m1 = (Inr True, ?m2\<lparr>device := sdk_create ?payload (device ?m2)\<rparr>)"
    using cod live
    by (simp add: ssl_create_def sc ModuleParameters_getattr_def nociphers ssl_update_ciphers)
  have pr: "ssl_present m = (Inr True, ?m2\<lparr>device := sdk_create ?payload (device ?m2)\<rparr>)"
    using cr by (simp add: ssl_present_def ssl_exists_def sdk_exists_def absent)
  have nw: "''__warnings'' \<notin> set ssl_returnables" by (simp add: ssl_returnables_def)
  have ex: "ssl_exec_module m =
      report ssl_api_map ssl_returnables True (?m2\<lparr>device := sdk_create ?payload (device ?m2)\<rparr>)"
    by (simp add: ssl_exec_module_def state pr)
  have "calls (device (snd (ssl_exec_module m))) = calls (device m) @ [Exists, Create ?payload]"
    by (simp add: ex report_eq [OF nw] sdk_create_def)
  moreover have "map_of ?payload ''ciphers'' = Some (Scalar (PStr ''DEFAULT''))"
    by (rule create_payload_ciphers)
  moreover have "\<exists>result. fst (ssl_exec_module m) = Inr result \<and>
      map_of result ''changed'' = Some (Scalar (PBool True))"
    by (simp add: ex report_eq [OF nw] dict_update_def map_of_dict_set)
  ultimately show ?thesis by blast
qed


theorem create_sends_default_ciphers_witness:
  "values_get (m_want (ssl_manager [(''name'', Scalar (PStr ''p'')), (''state'', Scalar (PStr ''present''))] False
        \<lparr>resource = None, calls = [], delete_effective = True\<rparr>)) ''state'' = Scalar (PStr ''present'') \<and>
   resource (device (ssl_manager [(''name'', Scalar (PStr ''p'')), (''state'', Scalar (PStr ''present''))] False
        \<lparr>resource = None, calls = [], delete_effective = True\<rparr>)) = None \<and>
   \<not> check_mode (ssl_manager [(''name'', Scalar (PStr ''p'')), (''state'', Scalar (PStr ''present''))] False
        \<lparr>resource = None, calls = [], delete_effective = True\<rparr>) \<and>
   values_get (m_want (ssl_manager [(''name'', Scalar (PStr ''p'')), (''state'', Scalar (PStr ''present''))] False
        \<lparr>resource = None, calls = [], delete_effective = True\<rparr>)) ''ciphers'' = Scalar PNone \<and>
   ModuleParameters_cert_key_chain (m_want (ssl_manager [(''name'', Scalar (PStr ''p'')), (''state'', Scalar (PStr ''present''))] False
        \<lparr>resource = None, calls = [], delete_effective = True\<rparr>)) = Inr None \<and>
   (\<exists>payload result.
     calls (device (snd (ssl_exec_module (ssl_manager [(''name'', Scalar (PStr ''p'')), (''state'', Scalar (PStr ''present''))] False
        \<lparr>resource = None, calls = [], delete_effective = True\<rparr>)))) = calls (device (ssl_manager [(''name'', Scalar (PStr ''p'')), (''state'', Scalar (PStr ''present''))] False
        \<lparr>resource = None, calls = [], delete_effective = True\<rparr>)) @ [Exists, Create payload] \<and>
     map_of payload ''ciphers'' = Some (Scalar (PStr ''DEFAULT'')) \<and>
     fst (ssl_exec_module (ssl_manager [(''name'', Scalar (PStr ''p'')), (''state'', Scalar (PStr ''present''))] False
        \<lparr>resource = None, calls = [], delete_effective = True\<rparr>)) = Inr result \<and>
     map_of result ''changed'' = Some (Scalar (PBool True)))"
proof -
  have h1: "values_get (m_want (ssl_manager [(''name'', Scalar (PStr ''p'')), (''state'', Scalar (PStr ''present''))] False
        \<lparr>resource = None, calls = [], delete_effective = True\<rparr>)) ''state'' = Scalar (PStr ''present'')"
    by code_simp
  have h2: "resource (device (ssl_manager [(''name'', Scalar (PStr ''p'')), (''state'', Scalar (PStr ''present''))] False
        \<lparr>resource = None, calls = [], delete_effective = True\<rparr>)) = None"
    by code_simp
  have h3: "\<not> check_mode (ssl_manager [(''name'', Scalar (PStr ''p'')), (''state'', Scalar (PStr ''present''))] False
        \<lparr>resource = None, calls = [], delete_effective = True\<rparr>)"
    by code_simp
  have h4: "values_get (m_want (ssl_manager [(''name'', Scalar (PStr ''p'')), (''state'', Scalar (PStr ''present''))] False
        \<lparr>resource = None, calls = [], delete_effective = True\<rparr>)) ''ciphers'' = Scalar PNone"
    by code_simp
  have h5: "ModuleParameters_cert_key_chain (m_want (ssl_manager [(''name'', Scalar (PStr ''p'')), (''state'', Scalar (PStr ''present''))] False
        \<lparr>resource = None, calls = [], delete_effective = True\<rparr>)) = Inr None"
    by code_simp
  from create_sends_default_ciphers [OF h1 h2 h3 h4 h5] h1 h2 h3 h4 h5 show ?thesis
    by blast
qed

lemma py_eq_refl: "py_eq v v"
  by (cases v) auto

lemma param_eq_refl: "param_eq v v"
  by (cases v) (auto simp: py_eq_refl list_all2_same)

lemma want_bundle_no_attr: "want_bundle part item \<noteq> Inl AttributeError"
  by (simp add: want_bundle_def Let_def split: option.splits)

lemma want_bundles_no_attr: "want_bundles part items acc \<noteq> Inl AttributeError"
  by (induction items arbitrary: acc) (auto split: sum.splits simp: want_bundle_no_attr)

lemma want_ckc_no_attr: "ModuleParameters_cert_key_chain w \<noteq> Inl AttributeError"
  by (auto simp: ModuleParameters_cert_key_chain_def want_bundles_no_attr
      split: param.splits pyval.splits sum.splits)

lemma have_bundle_no_attr: "have_bundle item \<noteq> Inl AttributeError"
  by (simp add: have_bundle_def split: option.splits)

lemma have_bundles_no_attr: "have_bundles items acc \<noteq> Inl AttributeError"
  by (induction items arbitrary: acc) (auto split: sum.splits simp: have_bundle_no_attr)

lemma have_ckc_no_attr: "ApiParameters_cert_key_chain h \<noteq> Inl AttributeError"
  by (auto simp: ApiParameters_cert_key_chain_def have_bundles_no_attr
      split: param.splits pyval.splits sum.splits)

lemma want_getattr_ckc:
  "ModuleParameters_getattr w ''cert_key_chain'' =
     (case ModuleParameters_cert_key_chain w of Inl e \<Rightarrow> Inl e | Inr r \<Rightarrow> Inr (opt_param r))"
  using want_ckc_no_attr [of w]
  by (auto simp: ModuleParameters_getattr_def split: sum.splits error.splits)

lemma have_getattr_ckc:
  "ApiParameters_getattr h ''cert_key_chain'' =
     (case ApiParameters_cert_key_chain h of Inl e \<Rightarrow> Inl e | Inr r \<Rightarrow> Inr (opt_param r))"
  using have_ckc_no_attr [of h]
  by (auto simp: ApiParameters_getattr_def split: sum.splits error.splits)

lemma opt_param_inj: "opt_param a = opt_param b \<Longrightarrow> a = b"
  by (auto simp: opt_param_def split: option.splits)

lemma diff_complex_items_same: "diff_complex_items r r = Inr None"
  by (auto simp: diff_complex_items_def split: option.splits)

lemma compare_same:
  assumes "ModuleParameters_getattr w k = Inr v" and "ApiParameters_getattr h k = Inr v"
    and "k \<noteq> ''parent''"
  shows "Difference_compare w h k = Inr (Scalar PNone)"
proof (cases "k = ''cert_key_chain''")
  case True
  from assms(1) True obtain r where r: "ModuleParameters_cert_key_chain w = Inr r" "v = opt_param r"
    by (auto simp: want_getattr_ckc split: sum.splits)
  from assms(2) True obtain r' where r': "ApiParameters_cert_key_chain h = Inr r'" "v = opt_param r'"
    by (auto simp: have_getattr_ckc split: sum.splits)
  from r r' have "r = r'" by (auto dest: opt_param_inj)
  with r r' True show ?thesis
    by (simp add: Difference_compare_def Difference_cert_key_chain_def diff_complex_items_same
        opt_param_def)
next
  case False
  with assms show ?thesis
    by (simp add: Difference_compare_def Difference_default_def param_eq_refl)
qed

lemma ssl_diff_loop_same:
  "\<forall>k\<in>set ks. Difference_compare w h k = Inr (Scalar PNone) \<Longrightarrow> ssl_diff_loop w h ks acc = Inr acc"
  by (induction ks arbitrary: acc) auto


lemma updatable_not_parent: "k \<in> set ssl_updatables \<Longrightarrow> k \<noteq> ''parent''"
  by (auto simp: ssl_updatables_def)

lemma empty_report:
  "report ssl_api_map ssl_returnables c (m\<lparr>m_changes := Parameters_init ssl_api_map []\<rparr>) =
     (Inr [(''changed'', Scalar (PBool c))], m\<lparr>m_changes := Parameters_init ssl_api_map []\<rparr>)"
proof -
  have nw: "''__warnings'' \<notin> set ssl_returnables" by (simp add: ssl_returnables_def)
  have "to_return ssl_returnables (Parameters_init ssl_api_map []) = []"
    by code_simp
  moreover have "to_return ssl_returnables (Parameters_init ssl_api_map []) = [] \<Longrightarrow>
     to_return ssl_returnables (Parameters_init ssl_api_map (to_return ssl_returnables (Parameters_init ssl_api_map []))) = []"
    by simp
  ultimately show ?thesis
    by (simp add: report_eq [OF nw] dict_update_def)
qed

text \<open>
  C6: when the profile exists and every updatable field reads the same in the desired
  state and in the state read back from the device, a run of \<^verbatim>\<open>present\<close> finds no changed
  field, reports \<^verbatim>\<open>changed = false\<close> and nothing else, and sends the device the existence
  check and the load only: no modify call, and the resource is left as it is.
\<close>

theorem present_idempotent:
  assumes state: "values_get (Parameters_init ssl_api_map params) ''state'' = Scalar (PStr ''present'')"
    and exists: "resource dev = Some attrs"
    and same: "\<forall>k\<in>set ssl_updatables. \<exists>v.
        ModuleParameters_getattr (Parameters_init ssl_api_map params) k = Inr v \<and>
        ApiParameters_getattr (Parameters_init ssl_api_map attrs) k = Inr v"
  shows "ssl_diff_loop (Parameters_init ssl_api_map params) (Parameters_init ssl_api_map attrs)
           ssl_updatables [] = Inr [] \<and>
         fst (ssl_exec_module (ssl_manager params check dev)) = Inr [(''changed'', Scalar (PBool False))] \<and>
         calls (device (snd (ssl_exec_module (ssl_manager params check dev)))) = calls dev @ [Exists, Load] \<and>
         resource (device (snd (ssl_exec_module (ssl_manager params check dev)))) = resource dev"
proof -
  let ?w = "Parameters_init ssl_api_map params"
  let ?h = "Parameters_init ssl_api_map attrs"
  have cmp: "\<forall>k\<in>set ssl_updatables. Difference_compare ?w ?h k = Inr (Scalar PNone)"
    using same compare_same updatable_not_parent by blast
  have loop: "ssl_diff_loop ?w ?h ssl_updatables [] = Inr []"
    by (rule ssl_diff_loop_same [OF cmp])
  let ?m = "ssl_manager params check dev"
  let ?m' = "?m\<lparr>device := dev\<lparr>calls := calls dev @ [Exists, Load]\<rparr>, m_have := ?h\<rparr>"
  have pr: "ssl_present ?m = (Inr False, ?m')"
    by (simp add: ssl_present_def ssl_exists_def sdk_exists_def exists ssl_update_def
        ssl_read_current_from_device_def sdk_load_def ssl_should_update_def
        ssl_update_changed_options_def ssl_manager_def loop)
  have ch: "?m' = ?m'\<lparr>m_changes := Parameters_init ssl_api_map []\<rparr>"
    by (simp add: ssl_manager_def)
  have mw: "m_want ?m = ?w"
    by (simp add: ssl_manager_def)
  have "ssl_exec_module ?m = report ssl_api_map ssl_returnables False ?m'"
    using state by (simp add: ssl_exec_module_def pr mw)
  also have "\<dots> = (Inr [(''changed'', Scalar (PBool False))], ?m')"
    using empty_report [of False ?m'] ch by simp
  finally have ex: "ssl_exec_module ?m = (Inr [(''changed'', Scalar (PBool False))], ?m')" .
  show ?thesis
    by (simp add: ex loop)
qed


theorem present_idempotent_witness:
  "values_get (Parameters_init ssl_api_map
        [(''name'', Scalar (PStr ''p'')), (''state'', Scalar (PStr ''present'')),
         (''ciphers'', Scalar (PStr ''DEFAULT'')),
         (''cert_key_chain'', Bundles [[(''cert'', ''a''), (''key'', ''a'')]])]) ''state'' = Scalar (PStr ''present'') \<and>
   ModuleParameters_getattr (Parameters_init ssl_api_map
        [(''name'', Scalar (PStr ''p'')), (''state'', Scalar (PStr ''present'')),
         (''ciphers'', Scalar (PStr ''DEFAULT'')),
         (''cert_key_chain'', Bundles [[(''cert'', ''a''), (''key'', ''a'')]])]) ''ciphers'' = Inr (Scalar (PStr ''DEFAULT'')) \<and>
   ApiParameters_getattr (Parameters_init ssl_api_map
        [(''name'', Scalar (PStr ''p'')), (''ciphers'', Scalar (PStr ''DEFAULT'')),
         (''certKeyChain'',
          Bundles [[(''name'', ''a''), (''cert'', ''/Common/a.crt''),
                    (''key'', ''/Common/a.key''), (''chain'', ''none'')]])]) ''ciphers'' = Inr (Scalar (PStr ''DEFAULT'')) \<and>
   ModuleParameters_getattr (Parameters_init ssl_api_map
        [(''name'', Scalar (PStr ''p'')), (''state'', Scalar (PStr ''present'')),
         (''ciphers'', Scalar (PStr ''DEFAULT'')),
         (''cert_key_chain'', Bundles [[(''cert'', ''a''), (''key'', ''a'')]])]) ''cert_key_chain'' = Inr (Bundles [[(''name'', ''a''), (''cert'', ''/Common/a.crt''),
               (''key'', ''/Common/a.key''), (''chain'', ''none'')]]) \<and>
   ApiParameters_getattr (Parameters_init ssl_api_map
        [(''name'', Scalar (PStr ''p'')), (''ciphers'', Scalar (PStr ''DEFAULT'')),
         (''certKeyChain'',
          Bundles [[(''name'', ''a''), (''cert'', ''/Common/a.crt''),
                    (''key'', ''/Common/a.key''), (''chain'', ''none'')]])]) ''cert_key_chain'' = Inr (Bundles [[(''name'', ''a''), (''cert'', ''/Common/a.crt''),
               (''key'', ''/Common/a.key''), (''chain'', ''none'')]]) \<and>
   ModuleParameters_getattr (Parameters_init ssl_api_map
        [(''name'', Scalar (PStr ''p'')), (''state'', Scalar (PStr ''present'')),
         (''ciphers'', Scalar (PStr ''DEFAULT'')),
         (''cert_key_chain'', Bundles [[(''cert'', ''a''), (''key'', ''a'')]])]) ''ocsp_stapling'' = Inr (Scalar PNone) \<and>
   ApiParameters_getattr (Parameters_init ssl_api_map
        [(''name'', Scalar (PStr ''p'')), (''ciphers'', Scalar (PStr ''DEFAULT'')),
         (''certKeyChain'',
          Bundles [[(''name'', ''a''), (''cert'', ''/Common/a.crt''),
                    (''key'', ''/Common/a.key''), (''chain'', ''none'')]])]) ''ocsp_stapling'' = Inr (Scalar PNone) \<and>
   fst (ssl_exec_module (ssl_manager [(''name'', Scalar (PStr ''p'')), (''state'', Scalar (PStr ''present'')),
         (''ciphers'', Scalar (PStr ''DEFAULT'')),
         (''cert_key_chain'', Bundles [[(''cert'', ''a''), (''key'', ''a'')]])] False \<lparr>resource = Some
        [(''name'', Scalar (PStr ''p'')), (''ciphers'', Scalar (PStr ''DEFAULT'')),
         (''certKeyChain'',
          Bundles [[(''name'', ''a''), (''cert'', ''/Common/a.crt''),
                    (''key'', ''/Common/a.key''), (''chain'', ''none'')]])],
      calls = [], delete_effective = True\<rparr>)) = Inr [(''changed'', Scalar (PBool False))] \<and>
   calls (device (snd (ssl_exec_module (ssl_manager [(''name'', Scalar (PStr ''p'')), (''state'', Scalar (PStr ''present'')),
         (''ciphers'', Scalar (PStr ''DEFAULT'')),
         (''cert_key_chain'', Bundles [[(''cert'', ''a''), (''key'', ''a'')]])] False \<lparr>resource = Some
        [(''name'', Scalar (PStr ''p'')), (''ciphers'', Scalar (PStr ''DEFAULT'')),
         (''certKeyChain'',
          Bundles [[(''name'', ''a''), (''cert'', ''/Common/a.crt''),
                    (''key'', ''/Common/a.key''), (''chain'', ''none'')]])],
      calls = [], delete_effective = True\<rparr>)))) = [Exists, Load]"
proof -
  have st: "values_get (Parameters_init ssl_api_map
        [(''name'', Scalar (PStr ''p'')), (''state'', Scalar (PStr ''present'')),
         (''ciphers'', Scalar (PStr ''DEFAULT'')),
         (''cert_key_chain'', Bundles [[(''cert'', ''a''), (''key'', ''a'')]])]) ''state'' = Scalar (PStr ''present'')"
    by code_simp
  have c1: "ModuleParameters_getattr (Parameters_init ssl_api_map
        [(''name'', Scalar (PStr ''p'')), (''state'', Scalar (PStr ''present'')),
         (''ciphers'', Scalar (PStr ''DEFAULT'')),
         (''cert_key_chain'', Bundles [[(''cert'', ''a''), (''key'', ''a'')]])]) ''ciphers'' = Inr (Scalar (PStr ''DEFAULT''))"
    by code_simp
  have c2: "ApiParameters_getattr (Parameters_init ssl_api_map
        [(''name'', Scalar (PStr ''p'')), (''ciphers'', Scalar (PStr ''DEFAULT'')),
         (''certKeyChain'',
          Bundles [[(''name'', ''a''), (''cert'', ''/Common/a.crt''),
                    (''key'', ''/Common/a.key''), (''chain'', ''none'')]])]) ''ciphers'' = Inr (Scalar (PStr ''DEFAULT''))"
    by code_simp
  have k1: "ModuleParameters_getattr (Parameters_init ssl_api_map
        [(''name'', Scalar (PStr ''p'')), (''state'', Scalar (PStr ''present'')),
         (''ciphers'', Scalar (PStr ''DEFAULT'')),
         (''cert_key_chain'', Bundles [[(''cert'', ''a''), (''key'', ''a'')]])]) ''cert_key_chain'' = Inr (Bundles [[(''name'', ''a''), (''cert'', ''/Common/a.crt''),
               (''key'', ''/Common/a.key''), (''chain'', ''none'')]])"
    by code_simp
  have k2: "ApiParameters_getattr (Parameters_init ssl_api_map
        [(''name'', Scalar (PStr ''p'')), (''ciphers'', Scalar (PStr ''DEFAULT'')),
         (''certKeyChain'',
          Bundles [[(''name'', ''a''), (''cert'', ''/Common/a.crt''),
                    (''key'', ''/Common/a.key''), (''chain'', ''none'')]])]) ''cert_key_chain'' = Inr (Bundles [[(''name'', ''a''), (''cert'', ''/Common/a.crt''),
               (''key'', ''/Common/a.key''), (''chain'', ''none'')]])"
    by code_simp
  have o1: "ModuleParameters_getattr (Parameters_init ssl_api_map
        [(''name'', Scalar (PStr ''p'')), (''state'', Scalar (PStr ''present'')),
         (''ciphers'', Scalar (PStr ''DEFAULT'')),
         (''cert_key_chain'', Bundles [[(''cert'', ''a''), (''key'', ''a'')]])]) ''ocsp_stapling'' = Inr (Scalar PNone)"
    by code_simp
  have o2: "ApiParameters_getattr (Parameters_init ssl_api_map
        [(''name'', Scalar (PStr ''p'')), (''ciphers'', Scalar (PStr ''DEFAULT'')),
         (''certKeyChain'',
          Bundles [[(''name'', ''a''), (''cert'', ''/Common/a.crt''),
                    (''key'', ''/Common/a.key''), (''chain'', ''none'')]])]) ''ocsp_stapling'' = Inr (Scalar PNone)"
    by code_simp
  have same: "\<forall>k\<in>set ssl_updatables. \<exists>v.
        ModuleParameters_getattr (Parameters_init ssl_api_map
        [(''name'', Scalar (PStr ''p'')), (''state'', Scalar (PStr ''present'')),
         (''ciphers'', Scalar (PStr ''DEFAULT'')),
         (''cert_key_chain'', Bundles [[(''cert'', ''a''), (''key'', ''a'')]])]) k = Inr v \<and>
        ApiParameters_getattr (Parameters_init ssl_api_map
        [(''name'', Scalar (PStr ''p'')), (''ciphers'', Scalar (PStr ''DEFAULT'')),
         (''certKeyChain'',
          Bundles [[(''name'', ''a''), (''cert'', ''/Common/a.crt''),
                    (''key'', ''/Common/a.key''), (''chain'', ''none'')]])]) k = Inr v"
    by (simp add: ssl_updatables_def c1 c2 k1 k2 o1 o2)
  have ex: "resource \<lparr>resource = Some
        [(''name'', Scalar (PStr ''p'')), (''ciphers'', Scalar (PStr ''DEFAULT'')),
         (''certKeyChain'',
          Bundles [[(''name'', ''a''), (''cert'', ''/Common/a.crt''),
                    (''key'', ''/Common/a.key''), (''chain'', ''none'')]])],
      calls = [], delete_effective = True\<rparr> = Some [(''name'', Scalar (PStr ''p'')), (''ciphers'', Scalar (PStr ''DEFAULT'')),
         (''certKeyChain'',
          Bundles [[(''name'', ''a''), (''cert'', ''/Common/a.crt''),
                    (''key'', ''/Common/a.key''), (''chain'', ''none'')]])]"
    by simp
  from present_idempotent [OF st ex same, of False] st c1 c2 k1 k2 o1 o2 show ?thesis
    by simp
qed












subsection \<open>Check mode\<close>







subsection \<open>Validation of the certificate bundles\<close>











end
